theory Spec2Isabelle
  imports Complex_Main "HOL-Library.Sublist"
begin

section \<open>Vehicle dynamics: the per-frame callback of the Car component\<close>

text \<open>
  The source is the \<^verbatim>\<open>useFrame\<close> callback of the component \<^verbatim>\<open>Car\<close> in local mode (the
  second document of \<^verbatim>\<open>src/firebase.ts\<close>; line numbers are those of that file). JavaScript
  numbers are modelled as exact reals: rounding, NaN and the infinities of IEEE doubles
  are outside the model. The mutable refs \<^verbatim>\<open>ref.current.position\<close>, \<^verbatim>\<open>yaw.current\<close>,
  \<^verbatim>\<open>speed.current\<close>, \<^verbatim>\<open>damage.current\<close> and the React state \<^verbatim>\<open>gear\<close>,
  \<^verbatim>\<open>headlightsOn\<close> form the record \<open>CarSim\<close>, passed in and returned. The key handlers
  (gear and headlight keys) and the spawn effect change that state between frames; the
  camera is not modelled.
\<close>

record Collider =
  c_x :: real
  c_z :: real
  c_w :: real
  c_d :: real

record Bounds =
  minX :: real
  maxX :: real
  minZ :: real
  maxZ :: real

record CarSim =
  pos_x :: real
  pos_y :: real
  pos_z :: real
  yaw_cur :: real
  speed_cur :: real
  damage_cur :: real
  gear :: int
  headlightsOn :: bool

text \<open>The payload handed to \<^verbatim>\<open>onUpdate\<close> (type \<^verbatim>\<open>CarState\<close> of the source).\<close>

record CarState =
  st_x :: real
  st_y :: real
  st_z :: real
  st_yaw :: real
  st_speed :: real
  st_gear :: int
  st_rpm :: real
  st_damage :: real
  st_traction :: real
  st_headlightsOn :: bool

type_synonym KeyMap = "string \<Rightarrow> bool"

definition gearRatios :: "real list" where
  "gearRatios = [3.1, 3.0, 2.2, 1.6, 1.25, 1.0, 0.82]"

definition finalDrive :: real where "finalDrive = 3.4"
definition wheelRadius :: real where "wheelRadius = 0.36"
definition maxRpm :: real where "maxRpm = 9000"
definition idleRpm :: real where "idleRpm = 900"
definition enginePower :: real where "enginePower = 36"
definition brakePower :: real where "brakePower = 34"
definition drag :: real where "drag = 0.02"
definition rolling :: real where "rolling = 0.28"
definition carScale :: real where "carScale = 1.2"
definition carHalfW :: real where "carHalfW = 1.3 * carScale"
definition carHalfD :: real where "carHalfD = 2.6 * carScale"

text \<open>\<^verbatim>\<open>bounds\<close> of World.tsx, the value every Car receives.\<close>

definition world_bounds :: Bounds where
  "world_bounds = \<lparr>minX = -1200, maxX = 1200, minZ = -1200, maxZ = 1200\<rparr>"

definition throttle :: "bool \<Rightarrow> KeyMap \<Rightarrow> real" where
  "throttle active keys = (if active \<and> (keys ''w'' \<or> keys ''arrowup'') then 1 else 0)"

definition brake :: "bool \<Rightarrow> KeyMap \<Rightarrow> real" where
  "brake active keys = (if active \<and> (keys ''s'' \<or> keys ''arrowdown'') then 1 else 0)"

definition steerInput :: "bool \<Rightarrow> KeyMap \<Rightarrow> real" where
  "steerInput active keys =
     (if active \<and> (keys ''a'' \<or> keys ''arrowleft'') then 1 else 0) +
     (if active \<and> (keys ''d'' \<or> keys ''arrowright'') then -1 else 0)"

definition handbrake :: "bool \<Rightarrow> KeyMap \<Rightarrow> bool" where
  "handbrake active keys = (active \<and> keys '' '')"

text \<open>\<^verbatim>\<open>gearRatios[Math.max(0, Math.min(gear, gearRatios.length - 1))]\<close>: the index is
  clamped into the table, so the read is always in range.\<close>

definition ratio_of :: "int \<Rightarrow> real" where
  "ratio_of g = gearRatios ! nat (max 0 (min g (int (length gearRatios) - 1)))"

text \<open>Lines 143-161: \<^verbatim>\<open>speed.current\<close> after the force balance, the handbrake decay and
  the idle decay.\<close>

definition speed_integrated :: "bool \<Rightarrow> KeyMap \<Rightarrow> real \<Rightarrow> CarSim \<Rightarrow> real" where
  "speed_integrated active keys delta s =
     (let direction = (if gear s = 0 then -1 else 1);
          engineForce = throttle active keys * enginePower * ratio_of (gear s) * direction;
          brakeSign = (if speed_cur s = 0 then 1 else sgn (speed_cur s));
          brakeForce = brakePower * brake active keys * brakeSign;
          accel = engineForce - brakeForce - drag * speed_cur s * \<bar>speed_cur s\<bar>
                    - rolling * speed_cur s;
          v1 = speed_cur s + accel * delta;
          v2 = (if handbrake active keys \<and> \<bar>v1\<bar> > 0.5 then v1 * 0.985 else v1)
      in if \<not> active then v2 * 0.99 else v2)"

text \<open>Lines 163-165: the new heading.\<close>

definition yaw_next :: "bool \<Rightarrow> KeyMap \<Rightarrow> real \<Rightarrow> CarSim \<Rightarrow> real" where
  "yaw_next active keys delta s =
     (let v = speed_integrated active keys delta s;
          speedAbs = \<bar>v\<bar>;
          steerFactor = 1 / (1 + speedAbs * 0.08)
      in yaw_cur s + steerInput active keys * steerFactor * delta * 1.7 *
           (if speedAbs > 0.2 then sgn v else 1))"

text \<open>Line 167: the position advances along \<^verbatim>\<open>forward\<close>, the heading vector computed at
  the start of the frame (from the heading before this frame's steering).\<close>

definition pos_moved :: "bool \<Rightarrow> KeyMap \<Rightarrow> real \<Rightarrow> CarSim \<Rightarrow> real \<times> real" where
  "pos_moved active keys delta s =
     (let v = speed_integrated active keys delta s
      in (pos_x s + sin (yaw_cur s) * (v * delta), pos_z s + cos (yaw_cur s) * (v * delta)))"

text \<open>Lines 173-188: \<^verbatim>\<open>resolveCollision\<close> mutates \<^verbatim>\<open>pos.x\<close>, \<^verbatim>\<open>pos.z\<close> and the flag
  \<^verbatim>\<open>collided\<close>; here the three are passed and returned.\<close>

definition resolveCollision :: "Collider \<Rightarrow> real \<times> real \<times> bool \<Rightarrow> real \<times> real \<times> bool" where
  "resolveCollision c p =
     (case p of (x, z, collided) \<Rightarrow>
        let halfW = c_w c / 2 + carHalfW;
            halfD = c_d c / 2 + carHalfD;
            dx = x - c_x c;
            dz = z - c_z c
        in if \<bar>dx\<bar> < halfW \<and> \<bar>dz\<bar> < halfD then
             (let penX = halfW - \<bar>dx\<bar>;
                  penZ = halfD - \<bar>dz\<bar>
              in if penX < penZ then (x + (if dx = 0 then 1 else sgn dx) * penX, z, True)
                 else (x, z + (if dz = 0 then 1 else sgn dz) * penZ, True))
           else (x, z, collided))"

text \<open>Lines 195-213: the world-bounds clamp.\<close>

definition clamp_bounds :: "Bounds \<Rightarrow> real \<times> real \<times> bool \<Rightarrow> real \<times> real \<times> bool" where
  "clamp_bounds b p =
     (case p of (x, z, collided) \<Rightarrow>
        let loX = minX b + carHalfW;
            hiX = maxX b - carHalfW;
            loZ = minZ b + carHalfD;
            hiZ = maxZ b - carHalfD;
            (x1, col1) = (if x < loX then (loX, True) else if x > hiX then (hiX, True)
                          else (x, collided))
        in if z < loZ then (x1, loZ, True) else if z > hiZ then (x1, hiZ, True)
           else (x1, z, col1))"

text \<open>Lines 190-213: one pass over the static colliders, one over the dynamic ones when the
  optional ref is there, then the clamp.\<close>

definition resolve_pass ::
  "Collider list \<Rightarrow> Collider list option \<Rightarrow> Bounds \<Rightarrow> real \<times> real \<Rightarrow> real \<times> real \<times> bool" where
  "resolve_pass colliders dyn b p =
     (let p1 = fold resolveCollision colliders (fst p, snd p, False);
          p2 = (case dyn of None \<Rightarrow> p1 | Some ds \<Rightarrow> fold resolveCollision ds p1)
      in clamp_bounds b p2)"

text \<open>Lines 215-220: damage and bounce; the pair is (speed, damage).\<close>

definition impact_response :: "bool \<Rightarrow> real \<Rightarrow> real \<Rightarrow> real \<times> real" where
  "impact_response collided v dmg =
     (if collided then
        (let impact = min 1 (\<bar>v\<bar> / 18);
             dmg' = min 1 (dmg + impact * 0.22);
             v' = v * (-0.25)
         in (if \<bar>v'\<bar> < 0.8 then 0 else v', dmg'))
      else (v, dmg))"

text \<open>Lines 222-224. \<^verbatim>\<open>speedAbs\<close> was taken at line 163, before the bounce.\<close>

definition rpm_of :: "real \<Rightarrow> int \<Rightarrow> real" where
  "rpm_of speedAbs g =
     (let wheelRpm = (speedAbs / (2 * pi * wheelRadius)) * 60
      in min maxRpm (max idleRpm (wheelRpm * ratio_of g * finalDrive)))"

definition traction_of :: "real \<Rightarrow> real \<Rightarrow> real" where
  "traction_of speedAbs steer = max 0 (1 - min 1 (speedAbs / 45) * \<bar>steer\<bar> * 0.6)"

text \<open>Lines 227-230: the automatic shift queues an update of the React state \<^verbatim>\<open>gear\<close>,
  seen from the next frame on.\<close>

definition auto_shift :: "bool \<Rightarrow> real \<Rightarrow> int \<Rightarrow> int" where
  "auto_shift active rpm g =
     (if active \<and> g > 0 then
        (let g1 = (if rpm > 7800 \<and> g < 6 then min 6 (g + 1) else g)
         in if rpm < 2200 \<and> g > 1 then max 1 (g1 - 1) else g1)
      else g)"

text \<open>The whole frame in local mode: the next simulation state and the payload of
  \<^verbatim>\<open>onUpdate\<close>.\<close>

definition car_frame ::
  "bool \<Rightarrow> KeyMap \<Rightarrow> Collider list \<Rightarrow> Collider list option \<Rightarrow> Bounds \<Rightarrow> real \<Rightarrow> CarSim
     \<Rightarrow> CarSim \<times> CarState" where
  "car_frame active keys colliders dyn b delta s =
     (let v = speed_integrated active keys delta s;
          speedAbs = \<bar>v\<bar>;
          yaw' = yaw_next active keys delta s;
          (x', z', collided) = resolve_pass colliders dyn b (pos_moved active keys delta s);
          (v', dmg') = impact_response collided v (damage_cur s);
          rpm = rpm_of speedAbs (gear s);
          traction = traction_of speedAbs (steerInput active keys)
      in (\<lparr>pos_x = x', pos_y = pos_y s, pos_z = z', yaw_cur = yaw', speed_cur = v',
           damage_cur = dmg', gear = auto_shift active rpm (gear s),
           headlightsOn = headlightsOn s\<rparr>,
          \<lparr>st_x = x', st_y = pos_y s, st_z = z', st_yaw = yaw', st_speed = v',
           st_gear = gear s, st_rpm = rpm, st_damage = dmg', st_traction = traction,
           st_headlightsOn = headlightsOn s\<rparr>))"

text \<open>Whether this frame resolved a collision: the flag \<^verbatim>\<open>collided\<close> at line 215.\<close>

definition frame_collided ::
  "bool \<Rightarrow> KeyMap \<Rightarrow> Collider list \<Rightarrow> Collider list option \<Rightarrow> Bounds \<Rightarrow> real \<Rightarrow> CarSim \<Rightarrow> bool" where
  "frame_collided active keys colliders dyn b delta s =
     snd (snd (resolve_pass colliders dyn b (pos_moved active keys delta s)))"




subsection \<open>Predicates used to state the vehicle properties\<close>










subsection \<open>Example inputs of the vehicle properties\<close>

definition no_keys :: KeyMap where
  "no_keys = (\<lambda>k. False)"

definition ex_car :: CarSim where
  "ex_car = \<lparr>pos_x = 0, pos_y = 0.75, pos_z = 0, yaw_cur = 0, speed_cur = 20, damage_cur = 0,
             gear = 1, headlightsOn = True\<rparr>"

definition ex_wall :: Collider where
  "ex_wall = \<lparr>c_x = 0, c_z = 5, c_w = 4, c_d = 4\<rparr>"





section \<open>The shared store and the hook useFirebaseMultiplayer\<close>

text \<open>
  The source is the hook \<^verbatim>\<open>useFirebaseMultiplayer\<close> in its most complete variant, the one
  with the three publish tiers, the quota timer and the single chat document (the first
  document of \<^verbatim>\<open>unnamed/part_001\<close>; line numbers are those of that file). A document of
  the store is schemaless: a finite map from field names to values. One room is modelled;
  its collections \<^verbatim>\<open>players\<close> and \<^verbatim>\<open>cars\<close> map document ids to documents (the chat log
  is the document \<^verbatim>\<open>chat-feed\<close> of \<^verbatim>\<open>cars\<close>, as in the source).
\<close>

datatype fval =
    FNull
  | FBool bool
  | FNum real
  | FStr string
  | FTime int
  | FArr "fval list"
  | FMap "(string \<times> fval) list"

type_synonym doc = "string \<rightharpoonup> fval"

record Store =
  players :: "string \<rightharpoonup> doc"
  cars :: "string \<rightharpoonup> doc"

text \<open>JavaScript truthiness (\<^verbatim>\<open>!!v\<close>); a Timestamp, an array and an object are truthy.\<close>

fun truthy :: "fval \<Rightarrow> bool" where
  "truthy FNull = False"
| "truthy (FBool b) = b"
| "truthy (FNum n) = (n \<noteq> 0)"
| "truthy (FStr s) = (s \<noteq> [])"
| "truthy (FTime t) = True"
| "truthy (FArr xs) = True"
| "truthy (FMap kvs) = True"

text \<open>An error object of the store's client library: its \<^verbatim>\<open>code\<close> and \<^verbatim>\<open>message\<close>.\<close>

record fs_error =
  err_code :: string
  err_message :: string

text \<open>How the promise of an \<^verbatim>\<open>async\<close> function settles.\<close>

datatype 'a outcome = Resolved 'a | Rejected fs_error

text \<open>The state of one client's hook: \<^verbatim>\<open>clientId\<close>, \<^verbatim>\<open>safeName\<close>,
  \<^verbatim>\<open>quotaBlockedRef.current\<close>, whether \<^verbatim>\<open>quotaUnblockTimerRef.current\<close> holds a timer,
  and \<^verbatim>\<open>firebaseError\<close>.\<close>

record Client =
  clientId :: string
  safeName :: string
  quotaBlocked :: bool
  quotaUnblockTimer :: bool
  firebaseError :: "string option"

text \<open>What the environment decides for one call: the client's clock (\<^verbatim>\<open>Date.now()\<close>), the
  server's clock at the commit (\<^verbatim>\<open>serverTimestamp()\<close>), an exception thrown synchronously
  while the call is set up (\<^verbatim>\<open>doc(...)\<close>, the call of \<^verbatim>\<open>runTransaction\<close>), and a failure of
  the transaction itself (the store is unreachable, the quota is exhausted), which rejects
  the promise \<^verbatim>\<open>runTransaction\<close> returned.\<close>

record CallEnv =
  now :: int
  serverNow :: int
  sync_throw :: "fs_error option"
  tx_failure :: "fs_error option"

definition STALE_MS :: int where "STALE_MS = 15000"
definition QUOTA_RETRY_MS :: int where "QUOTA_RETRY_MS = 60000"

text \<open>\<^verbatim>\<open>toLowerCase\<close> on the letters A to Z.\<close>

definition toLowerCase :: "string \<Rightarrow> string" where
  "toLowerCase s =
     map (\<lambda>c. if (65::nat) \<le> of_char c \<and> of_char c \<le> (90::nat)
              then char_of (of_char c + (32::nat)) else c) s"

definition toErr :: "string \<Rightarrow> fs_error \<Rightarrow> string" where
  "toErr label err = label @ '': '' @ err_message err"

definition isQuotaError :: "fs_error \<Rightarrow> bool" where
  "isQuotaError err =
     (err_code err = ''resource-exhausted'' \<or>
      sublist ''quota exceeded'' (toLowerCase (err_message err)))"

text \<open>\<^verbatim>\<open>setWriteErr\<close>: a quota error suspends all outgoing writes and arms the timer (once);
  any other error is only reported.\<close>

definition setWriteErr :: "string \<Rightarrow> fs_error \<Rightarrow> Client \<Rightarrow> Client" where
  "setWriteErr label err c =
     (if isQuotaError err then
        c\<lparr>quotaBlocked := True,
          firebaseError := Some (label @ '': Quota exceeded (Spark limit)''),
          quotaUnblockTimer := True\<rparr>
      else c\<lparr>firebaseError := Some (toErr label err)\<rparr>)"

text \<open>The timer's callback, \<^verbatim>\<open>QUOTA_RETRY_MS\<close> after it was armed.\<close>

definition quota_timer_fired :: "Client \<Rightarrow> Client" where
  "quota_timer_fired c =
     c\<lparr>quotaBlocked := False,
       quotaUnblockTimer := False,
       firebaseError := (case firebaseError c of
                           None \<Rightarrow> None
                         | Some prev \<Rightarrow> if sublist ''Quota exceeded'' prev then None else Some prev)\<rparr>"

text \<open>\<^verbatim>\<open>raw?.updatedAt?.toMillis?.() ?? 0\<close>: 0 unless the field holds a Timestamp.\<close>

definition updatedAtMs :: "doc option \<Rightarrow> int" where
  "updatedAtMs raw =
     (case raw of None \<Rightarrow> 0
      | Some d \<Rightarrow> (case d ''updatedAt'' of Some (FTime t) \<Rightarrow> t | _ \<Rightarrow> 0))"

definition driverId_of :: "doc option \<Rightarrow> fval option" where
  "driverId_of raw = (case raw of None \<Rightarrow> None | Some d \<Rightarrow> d ''driverId'')"

definition occupiedByOther :: "Client \<Rightarrow> CallEnv \<Rightarrow> doc option \<Rightarrow> bool" where
  "occupiedByOther c env raw =
     (case driverId_of raw of None \<Rightarrow> False
      | Some v \<Rightarrow> truthy v \<and> v \<noteq> FStr (clientId c) \<and>
                  (updatedAtMs raw = 0 \<or> now env - updatedAtMs raw < STALE_MS))"

text \<open>\<^verbatim>\<open>tx.set(ref, data, { merge: true })\<close>: the fields of \<open>data\<close> replace or extend those of
  the document, which is created when it does not exist.\<close>

definition merge_set :: "doc option \<Rightarrow> doc \<Rightarrow> doc option" where
  "merge_set raw data = Some ((case raw of None \<Rightarrow> Map.empty | Some d \<Rightarrow> d) ++ data)"

text \<open>\<^verbatim>\<open>runTransaction\<close> on one document of \<^verbatim>\<open>cars\<close>. The store runs the update function on
  the current document and commits its write atomically: the function is given the document
  read and returns its result with the document to store. When the transaction fails the
  promise is rejected and nothing is written.\<close>

definition runTransaction ::
  "CallEnv \<Rightarrow> (doc option \<Rightarrow> 'a \<times> doc option) \<Rightarrow> string \<Rightarrow> Store \<Rightarrow> 'a outcome \<times> Store" where
  "runTransaction env body docId st =
     (case tx_failure env of
        Some e \<Rightarrow> (Rejected e, st)
      | None \<Rightarrow> (case body (cars st docId) of
                   (r, d') \<Rightarrow> (Resolved r, st\<lparr>cars := (cars st)(docId := d')\<rparr>)))"

text \<open>The update function of \<^verbatim>\<open>tryEnterCar\<close>.\<close>

definition tryEnterCar_tx :: "Client \<Rightarrow> CallEnv \<Rightarrow> doc option \<Rightarrow> bool \<times> doc option" where
  "tryEnterCar_tx c env raw =
     (if occupiedByOther c env raw then (False, raw)
      else (True, merge_set raw
              [''driverId'' \<mapsto> FStr (clientId c), ''driverName'' \<mapsto> FStr (safeName c),
               ''updatedAt'' \<mapsto> FTime (serverNow env)]))"

text \<open>\<^verbatim>\<open>tryEnterCar\<close>. The promise of \<^verbatim>\<open>runTransaction\<close> is returned from inside the
  \<^verbatim>\<open>try\<close> block without \<^verbatim>\<open>await\<close>: the \<^verbatim>\<open>catch\<close> block sees what is thrown while the call
  is set up, and a rejection of the returned promise passes to the caller.\<close>

definition tryEnterCar ::
  "CallEnv \<Rightarrow> Client \<Rightarrow> string \<Rightarrow> Store \<Rightarrow> bool outcome \<times> Client \<times> Store" where
  "tryEnterCar env c carId st =
     (if quotaBlocked c then (Resolved True, c, st)
      else case sync_throw env of
             Some e \<Rightarrow> (Resolved False, setWriteErr ''Try enter car'' e c, st)
           | None \<Rightarrow> (case runTransaction env (tryEnterCar_tx c env) carId st of
                        (out, st') \<Rightarrow> (out, c, st')))"

text \<open>The update function of \<^verbatim>\<open>leaveCar\<close>; \<open>patch\<close> is the optional final state.\<close>

definition leaveCar_tx :: "Client \<Rightarrow> CallEnv \<Rightarrow> doc option \<Rightarrow> doc option \<Rightarrow> bool \<times> doc option" where
  "leaveCar_tx c env patch raw =
     (if (case driverId_of raw of None \<Rightarrow> False | Some v \<Rightarrow> truthy v \<and> v \<noteq> FStr (clientId c))
      then (False, raw)
      else (True, merge_set raw
              ((case patch of None \<Rightarrow> Map.empty | Some p \<Rightarrow> p) ++
               [''driverId'' \<mapsto> FNull, ''driverName'' \<mapsto> FNull,
                ''updatedAt'' \<mapsto> FTime (serverNow env)])))"

definition leaveCar ::
  "CallEnv \<Rightarrow> Client \<Rightarrow> string \<Rightarrow> doc option \<Rightarrow> Store \<Rightarrow> bool outcome \<times> Client \<times> Store" where
  "leaveCar env c carId patch st =
     (if quotaBlocked c then (Resolved True, c, st)
      else case sync_throw env of
             Some e \<Rightarrow> (Resolved False, setWriteErr ''Leave car'' e c, st)
           | None \<Rightarrow> (case runTransaction env (leaveCar_tx c env patch) carId st of
                        (out, st') \<Rightarrow> (out, c, st')))"




text \<open>Calls of \<^verbatim>\<open>tryEnterCar\<close> by several clients on one vehicle, in the order in which the
  store serializes their transactions (the store commits the update functions one at a
  time; concurrent calls are any such order).\<close>

fun tryEnterCar_all ::
  "(CallEnv \<times> Client) list \<Rightarrow> string \<Rightarrow> Store \<Rightarrow> bool outcome list \<times> Store" where
  "tryEnterCar_all [] carId st = ([], st)"
| "tryEnterCar_all (call # calls) carId st =
     (case tryEnterCar (fst call) (snd call) carId st of
        (r, c', st') \<Rightarrow>
          (case tryEnterCar_all calls carId st' of (rs, st'') \<Rightarrow> (r # rs, st'')))"

subsection \<open>Predicates used to state the ownership properties\<close>

text \<open>A call that reaches the store: the client's writes are not suspended, nothing is thrown
  while the call is set up, and the transaction commits.\<close>

definition goes_through :: "CallEnv \<Rightarrow> Client \<Rightarrow> bool" where
  "goes_through env c = (\<not> quotaBlocked c \<and> sync_throw env = None \<and> tx_failure env = None)"

text \<open>The condition of the specification, written out on the store: the vehicle's document
  records a driver identity that is present, is not the requester, and is not stale (its
  last update is younger than 15000 ms on the requester's clock, or its time is unknown).\<close>

definition fresh_other_driver :: "Client \<Rightarrow> CallEnv \<Rightarrow> Store \<Rightarrow> string \<Rightarrow> bool" where
  "fresh_other_driver c env st carId =
     (case cars st carId of
        None \<Rightarrow> False
      | Some d \<Rightarrow>
          (case d ''driverId'' of
             None \<Rightarrow> False
           | Some v \<Rightarrow>
               truthy v \<and> v \<noteq> FStr (clientId c) \<and>
               (case d ''updatedAt'' of
                  Some (FTime t) \<Rightarrow> t = 0 \<or> now env - t < 15000
                | _ \<Rightarrow> True)))"

text \<open>The vehicle's document records a driver who is not the caller.\<close>

definition other_driver :: "Client \<Rightarrow> Store \<Rightarrow> string \<Rightarrow> bool" where
  "other_driver c st carId =
     (case cars st carId of
        None \<Rightarrow> False
      | Some d \<Rightarrow> (case d ''driverId'' of
                    None \<Rightarrow> False
                  | Some v \<Rightarrow> truthy v \<and> v \<noteq> FStr (clientId c)))"

text \<open>The vehicle has no driver: no document, no field, or a value that is not truthy.\<close>

definition no_driver :: "Store \<Rightarrow> string \<Rightarrow> bool" where
  "no_driver st carId =
     (case driverId_of (cars st carId) of None \<Rightarrow> True | Some v \<Rightarrow> \<not> truthy v)"

text \<open>The fields of a document, the empty document when there is none.\<close>

definition fields_of :: "Store \<Rightarrow> string \<Rightarrow> doc" where
  "fields_of st carId = (case cars st carId of None \<Rightarrow> Map.empty | Some d \<Rightarrow> d)"

text \<open>The fields of the optional patch of \<^verbatim>\<open>leaveCar\<close> (\<^verbatim>\<open>{ ...patch }\<close>).\<close>

definition patch_fields :: "doc option \<Rightarrow> doc" where
  "patch_fields patch = (case patch of None \<Rightarrow> Map.empty | Some p \<Rightarrow> p)"

subsection \<open>Example inputs of the ownership properties\<close>

definition ex_alice :: Client where
  "ex_alice = \<lparr>clientId = ''p-alice'', safeName = ''Alice'', quotaBlocked = False,
               quotaUnblockTimer = False, firebaseError = None\<rparr>"

definition ex_bob :: Client where
  "ex_bob = \<lparr>clientId = ''p-bob'', safeName = ''Bob'', quotaBlocked = False,
             quotaUnblockTimer = False, firebaseError = None\<rparr>"

definition ex_carol :: Client where
  "ex_carol = \<lparr>clientId = ''p-carol'', safeName = ''Carol'', quotaBlocked = False,
               quotaUnblockTimer = False, firebaseError = None\<rparr>"

text \<open>Bob and Carol while their writes are suspended by the quota backoff.\<close>

definition ex_bob_blocked :: Client where
  "ex_bob_blocked = ex_bob\<lparr>quotaBlocked := True, quotaUnblockTimer := True\<rparr>"

definition ex_carol_blocked :: Client where
  "ex_carol_blocked = ex_carol\<lparr>quotaBlocked := True, quotaUnblockTimer := True\<rparr>"

definition ex_env :: CallEnv where
  "ex_env = \<lparr>now = 100000, serverNow = 100050, sync_throw = None, tx_failure = None\<rparr>"

definition ex_env_later :: CallEnv where
  "ex_env_later = \<lparr>now = 100400, serverNow = 100450, sync_throw = None, tx_failure = None\<rparr>"




text \<open>A room whose car-1 is free, and one whose car-1 Alice took a second ago.\<close>

definition ex_store_free :: Store where
  "ex_store_free =
     \<lparr>players = Map.empty,
      cars = [''car-1'' \<mapsto> [''x'' \<mapsto> FNum 6, ''z'' \<mapsto> FNum (-6), ''driverId'' \<mapsto> FNull,
                              ''driverName'' \<mapsto> FNull]]\<rparr>"

definition ex_store_taken :: Store where
  "ex_store_taken =
     \<lparr>players = Map.empty,
      cars = [''car-1'' \<mapsto> [''x'' \<mapsto> FNum 6, ''z'' \<mapsto> FNum (-6),
                              ''driverId'' \<mapsto> FStr ''p-alice'', ''driverName'' \<mapsto> FStr ''Alice'',
                              ''updatedAt'' \<mapsto> FTime 99000]]\<rparr>"

definition ex_patch :: doc where
  "ex_patch = [''x'' \<mapsto> FNum 12, ''z'' \<mapsto> FNum 3, ''speed'' \<mapsto> FNum 0]"

section \<open>The chat log\<close>

















subsection \<open>Example inputs of the chat properties\<close>




section \<open>Publishing local state\<close>

definition PLAYER_SYNC_FAST_MS :: int where "PLAYER_SYNC_FAST_MS = 140"
definition PLAYER_SYNC_NORMAL_MS :: int where "PLAYER_SYNC_NORMAL_MS = 260"
definition PLAYER_HEARTBEAT_MS :: int where "PLAYER_HEARTBEAT_MS = 2500"
definition CAR_SYNC_FAST_MS :: int where "CAR_SYNC_FAST_MS = 90"
definition CAR_SYNC_NORMAL_MS :: int where "CAR_SYNC_NORMAL_MS = 180"
definition CAR_HEARTBEAT_MS :: int where "CAR_HEARTBEAT_MS = 1000"

record NetPlayerState =
  p_name :: string
  p_x :: real
  p_z :: real
  p_yaw :: real
  p_health :: real
  p_wanted :: real
  p_ammo :: real
  p_inCar :: bool

text \<open>The remainder operator \<^verbatim>\<open>%\<close> of JavaScript on numbers (the quotient is truncated
  towards zero), and \<^verbatim>\<open>Math.hypot\<close>.\<close>

definition js_rem :: "real \<Rightarrow> real \<Rightarrow> real" where
  "js_rem a b = a - b * of_int (if 0 \<le> a / b then \<lfloor>a / b\<rfloor> else \<lceil>a / b\<rceil>)"

definition hypot :: "real \<Rightarrow> real \<Rightarrow> real" where
  "hypot a b = sqrt (a * a + b * b)"

definition yaw_distance :: "real \<Rightarrow> real \<Rightarrow> real" where
  "yaw_distance a b = \<bar>js_rem (a - b + pi * 3) (pi * 2) - pi\<bar>"

text \<open>The refs of the player's publish effect: \<^verbatim>\<open>lastSentRef\<close> and
  \<^verbatim>\<open>lastPlayerPayloadRef\<close>.\<close>

record PlayerSync =
  lastSent :: int
  lastPlayerPayload :: "NetPlayerState option"

text \<open>Lines 332-351 of the hook: the minimum gap the effect selects.\<close>

definition player_gap :: "NetPlayerState \<Rightarrow> string \<Rightarrow> NetPlayerState option \<Rightarrow> int" where
  "player_gap localState sname prev =
     (let moveDist = (case prev of None \<Rightarrow> 999
                      | Some p \<Rightarrow> hypot (p_x localState - p_x p) (p_z localState - p_z p));
          yawDiff = (case prev of None \<Rightarrow> pi
                     | Some p \<Rightarrow> yaw_distance (p_yaw localState) (p_yaw p));
          changed = (case prev of None \<Rightarrow> True
                     | Some p \<Rightarrow>
                         moveDist > 0.08 \<or> yawDiff > 0.06 \<or>
                         p_health localState \<noteq> p_health p \<or>
                         p_wanted localState \<noteq> p_wanted p \<or>
                         p_ammo localState \<noteq> p_ammo p \<or>
                         p_inCar localState \<noteq> p_inCar p \<or>
                         sname \<noteq> p_name p)
      in if \<not> changed then PLAYER_HEARTBEAT_MS
         else if p_inCar localState \<or> moveDist > 0.7 \<or> yawDiff > 0.3 then PLAYER_SYNC_FAST_MS
         else PLAYER_SYNC_NORMAL_MS)"

text \<open>One run of the publish effect at client time \<open>t\<close>: the payload of the \<^verbatim>\<open>setDoc\<close> it
  issues, if any. The effect itself changes no ref.\<close>

definition player_publish :: "int \<Rightarrow> NetPlayerState \<Rightarrow> Client \<Rightarrow> PlayerSync \<Rightarrow> NetPlayerState option" where
  "player_publish t localState c sync =
     (if quotaBlocked c then None
      else if t - lastSent sync < player_gap localState (safeName c) (lastPlayerPayload sync)
      then None
      else Some (localState\<lparr>p_name := safeName c\<rparr>))"

text \<open>The \<^verbatim>\<open>.then\<close> callback of a write issued at time \<open>t\<close> with that payload: only now are
  the two refs updated.\<close>

definition player_write_ack :: "int \<Rightarrow> NetPlayerState \<Rightarrow> PlayerSync \<Rightarrow> PlayerSync" where
  "player_write_ack t payload sync = sync\<lparr>lastSent := t, lastPlayerPayload := Some payload\<rparr>"

text \<open>The events of the player's publishing, in the order the event loop runs them: a run
  of the effect (the time and the local state), the success of the n-th write issued, the
  failure of the n-th write issued.\<close>

datatype pub_event =
    Attempt int NetPlayerState
  | Ack nat
  | Fail nat fs_error

record PlayerPub =
  pp_client :: Client
  pp_sync :: PlayerSync
  pp_issued :: "(int \<times> NetPlayerState) list"

fun pub_step :: "PlayerPub \<Rightarrow> pub_event \<Rightarrow> PlayerPub" where
  "pub_step s (Attempt t localState) =
     (case player_publish t localState (pp_client s) (pp_sync s) of
        None \<Rightarrow> s
      | Some payload \<Rightarrow> s\<lparr>pp_issued := pp_issued s @ [(t, payload)]\<rparr>)"
| "pub_step s (Ack n) =
     (if n < length (pp_issued s)
      then s\<lparr>pp_sync := player_write_ack (fst (pp_issued s ! n)) (snd (pp_issued s ! n)) (pp_sync s)\<rparr>
      else s)"
| "pub_step s (Fail n err) =
     (if n < length (pp_issued s)
      then s\<lparr>pp_client := setWriteErr ''Player write'' err (pp_client s)\<rparr>
      else s)"

definition pub_run :: "PlayerPub \<Rightarrow> pub_event list \<Rightarrow> PlayerPub" where
  "pub_run s events = foldl pub_step s events"

text \<open>The state of the publishing after the room is entered (the reset effect).\<close>

definition pub_init :: "Client \<Rightarrow> PlayerPub" where
  "pub_init c =
     \<lparr>pp_client = c\<lparr>quotaBlocked := False\<rparr>,
      pp_sync = \<lparr>lastSent = 0, lastPlayerPayload = None\<rparr>,
      pp_issued = []\<rparr>"

text \<open>\<^verbatim>\<open>pushCarState\<close>: the refs \<^verbatim>\<open>lastCarSentRef\<close> and \<^verbatim>\<open>lastCarPayloadRef\<close>, keyed by the
  vehicle. A field of the patch that is missing or not a number reads as 0
  (\<^verbatim>\<open>patch.x ?? 0\<close>).\<close>

record CarSync =
  lastCarSent :: "string \<rightharpoonup> int"
  lastCarPayload :: "string \<rightharpoonup> doc"

definition num_or0 :: "doc \<Rightarrow> string \<Rightarrow> real" where
  "num_or0 d k = (case d k of Some (FNum n) \<Rightarrow> n | _ \<Rightarrow> 0)"

definition flag_of :: "doc \<Rightarrow> string \<Rightarrow> bool" where
  "flag_of d k = (case d k of Some v \<Rightarrow> truthy v | None \<Rightarrow> False)"

definition car_gap :: "doc \<Rightarrow> doc option \<Rightarrow> int" where
  "car_gap patch prev =
     (let posMove = (case prev of None \<Rightarrow> 999
                     | Some p \<Rightarrow> hypot (num_or0 patch ''x'' - num_or0 p ''x'')
                                       (num_or0 patch ''z'' - num_or0 p ''z''));
          yawDiff = (case prev of None \<Rightarrow> pi
                     | Some p \<Rightarrow> yaw_distance (num_or0 patch ''yaw'') (num_or0 p ''yaw''));
          speedAbs = \<bar>num_or0 patch ''speed''\<bar>;
          changed = (case prev of None \<Rightarrow> True
                     | Some p \<Rightarrow>
                         posMove > 0.1 \<or> yawDiff > 0.08 \<or>
                         \<bar>num_or0 patch ''speed'' - num_or0 p ''speed''\<bar> > 0.5 \<or>
                         num_or0 patch ''gear'' \<noteq> num_or0 p ''gear'' \<or>
                         flag_of patch ''headlightsOn'' \<noteq> flag_of p ''headlightsOn'')
      in if \<not> changed then CAR_HEARTBEAT_MS
         else if speedAbs > 6 \<or> posMove > 0.8 \<or> yawDiff > 0.35 then CAR_SYNC_FAST_MS
         else CAR_SYNC_NORMAL_MS)"

text \<open>\<^verbatim>\<open>pushCarState\<close> at client time \<open>t\<close>: the refs are updated before the write is issued.
  The result is the new refs and the data of the \<^verbatim>\<open>setDoc\<close> issued, if any (its
  \<^verbatim>\<open>updatedAt\<close> is filled in by the server).\<close>

definition pushCarState ::
  "int \<Rightarrow> Client \<Rightarrow> string \<Rightarrow> doc \<Rightarrow> CarSync \<Rightarrow> CarSync \<times> doc option" where
  "pushCarState t c carId patch cs =
     (if quotaBlocked c then (cs, None)
      else let lastSent = (case lastCarSent cs carId of None \<Rightarrow> 0 | Some t0 \<Rightarrow> t0);
               minGap = car_gap patch (lastCarPayload cs carId)
           in if t - lastSent < minGap then (cs, None)
              else (cs\<lparr>lastCarSent := (lastCarSent cs)(carId \<mapsto> t),
                       lastCarPayload := (lastCarPayload cs)(carId \<mapsto> patch)\<rparr>,
                    Some (patch ++ [''driverId'' \<mapsto> FStr (clientId c),
                                    ''driverName'' \<mapsto> FStr (safeName c)])))"

subsection \<open>Example inputs of the publishing properties\<close>

definition ex_player :: NetPlayerState where
  "ex_player = \<lparr>p_name = ''Alice'', p_x = 0, p_z = 0, p_yaw = 0, p_health = 100, p_wanted = 0,
                p_ammo = 30, p_inCar = False\<rparr>"

text \<open>45 runs of the effect, 16 ms apart, with the same local state.\<close>

definition ex_attempts :: "pub_event list" where
  "ex_attempts = map (\<lambda>i. Attempt (100000 + 16 * int i) ex_player) [0..<45]"

section \<open>Properties of the vehicle dynamics\<close>

subsection \<open>Traction\<close>





subsection \<open>Damage and bounce\<close>

lemma frame_speed_damage:
  "st_speed (snd (car_frame active keys colliders dyn b delta s)) =
     fst (impact_response (frame_collided active keys colliders dyn b delta s)
            (speed_integrated active keys delta s) (damage_cur s))"
  "st_damage (snd (car_frame active keys colliders dyn b delta s)) =
     snd (impact_response (frame_collided active keys colliders dyn b delta s)
            (speed_integrated active keys delta s) (damage_cur s))"
  "speed_cur (fst (car_frame active keys colliders dyn b delta s)) =
     fst (impact_response (frame_collided active keys colliders dyn b delta s)
            (speed_integrated active keys delta s) (damage_cur s))"
  "damage_cur (fst (car_frame active keys colliders dyn b delta s)) =
     snd (impact_response (frame_collided active keys colliders dyn b delta s)
            (speed_integrated active keys delta s) (damage_cur s))"
  by (simp_all add: car_frame_def frame_collided_def Let_def split: prod.splits)

lemma ex_speed: "speed_integrated True no_keys (1/50) ex_car = 19.728"
  by (simp add: speed_integrated_def ex_car_def no_keys_def throttle_def brake_def handbrake_def
      drag_def rolling_def Let_def)

lemma ex_collided: "frame_collided True no_keys [ex_wall] None world_bounds (1/50) ex_car"
  by (simp add: frame_collided_def pos_moved_def ex_speed resolve_pass_def resolveCollision_def
      clamp_bounds_def world_bounds_def carHalfW_def carHalfD_def carScale_def ex_wall_def Let_def)
    (simp add: ex_car_def)

text \<open>
  Claim C7. In a frame that resolves a collision (the flag \<^verbatim>\<open>collided\<close> is set by a collider
  or by the clamp), with \<open>v\<close> the speed the frame has integrated: the damage becomes
  \<open>min 1 (damage + min 1 (|v| / 18) * 0.22)\<close>; the speed becomes \<open>v * (-0.25)\<close>, or 0 when
  that is below 0.8 in magnitude; the payload of \<^verbatim>\<open>onUpdate\<close> carries the same two values.
  Both are numbers with explicit bounds: the damage is at most 1 and the speed at most
  \<open>|v| / 4\<close> in magnitude.
\<close>

theorem collision_damage_and_bounce:
  assumes "frame_collided active keys colliders dyn b delta s"
  shows "damage_cur (fst (car_frame active keys colliders dyn b delta s)) =
           min 1 (damage_cur s + min 1 (\<bar>speed_integrated active keys delta s\<bar> / 18) * 0.22)
       \<and> speed_cur (fst (car_frame active keys colliders dyn b delta s)) =
           (if \<bar>speed_integrated active keys delta s * (-0.25)\<bar> < 0.8 then 0
            else speed_integrated active keys delta s * (-0.25))
       \<and> st_damage (snd (car_frame active keys colliders dyn b delta s)) =
           damage_cur (fst (car_frame active keys colliders dyn b delta s))
       \<and> st_speed (snd (car_frame active keys colliders dyn b delta s)) =
           speed_cur (fst (car_frame active keys colliders dyn b delta s))
       \<and> damage_cur (fst (car_frame active keys colliders dyn b delta s)) \<le> 1
       \<and> \<bar>speed_cur (fst (car_frame active keys colliders dyn b delta s))\<bar>
           \<le> \<bar>speed_integrated active keys delta s\<bar> / 4"
  using assms by (simp add: frame_speed_damage impact_response_def Let_def)

text \<open>The scenario of the specification: a car at speed 20 runs into a wall ahead of it.
  The frame integrates the speed to 19.728, the damage rises from 0 to 0.22 and the speed
  becomes -4.932.\<close>

theorem collision_damage_and_bounce_witness:
  "frame_collided True no_keys [ex_wall] None world_bounds (1/50) ex_car
   \<and> damage_cur (fst (car_frame True no_keys [ex_wall] None world_bounds (1/50) ex_car)) = 0.22
   \<and> speed_cur (fst (car_frame True no_keys [ex_wall] None world_bounds (1/50) ex_car)) = -4.932"
  using collision_damage_and_bounce [OF ex_collided] ex_collided
  by (simp add: ex_speed) (simp add: ex_car_def)

subsection \<open>World bounds\<close>









subsection \<open>Collision resolution\<close>















section \<open>Properties of the ownership protocol\<close>

lemma runTransaction_ok:
  "tx_failure env = None \<Longrightarrow>
   runTransaction env body docId st =
     (Resolved (fst (body (cars st docId))), st\<lparr>cars := (cars st)(docId := snd (body (cars st docId)))\<rparr>)"
  by (simp add: runTransaction_def split: prod.splits)

lemma occupied_eq_fresh_other:
  "occupiedByOther c env (cars st carId) = fresh_other_driver c env st carId"
  by (auto simp: occupiedByOther_def fresh_other_driver_def driverId_of_def updatedAtMs_def
      STALE_MS_def split: option.splits fval.splits)

lemma tryEnterCar_through:
  assumes "goes_through env c"
  shows "tryEnterCar env c carId st =
     (Resolved (\<not> fresh_other_driver c env st carId), c,
      if fresh_other_driver c env st carId then st
      else st\<lparr>cars := (cars st)(carId \<mapsto> fields_of st carId ++
              [''driverId'' \<mapsto> FStr (clientId c), ''driverName'' \<mapsto> FStr (safeName c),
               ''updatedAt'' \<mapsto> FTime (serverNow env)])\<rparr>)"
  using assms
  by (simp add: goes_through_def tryEnterCar_def runTransaction_ok tryEnterCar_tx_def
      occupied_eq_fresh_other merge_set_def fields_of_def)

text \<open>
  Claim C2, amended. For a call of \<^verbatim>\<open>tryEnterCar\<close> that reaches the store (the client's
  writes are not suspended and the transaction commits), on every store: the call resolves
  to \<^verbatim>\<open>false\<close> exactly when the vehicle's document records a driver identity that is
  present, is not the requester and is not stale (last update younger than 15000 ms, or of
  unknown time), and then nothing is written. In every other case it resolves to
  \<^verbatim>\<open>true\<close> and one write sets \<^verbatim>\<open>driverId\<close> to the requester's id, \<^verbatim>\<open>driverName\<close> to its
  display name and \<^verbatim>\<open>updatedAt\<close> to the server's time, keeping every other field and
  every other document.
\<close>

theorem tryEnterCar_decision:
  assumes "goes_through env c"
  shows "fst (tryEnterCar env c carId st) = Resolved (\<not> fresh_other_driver c env st carId)
     \<and> fst (snd (tryEnterCar env c carId st)) = c
     \<and> (if fresh_other_driver c env st carId
        then snd (snd (tryEnterCar env c carId st)) = st
        else players (snd (snd (tryEnterCar env c carId st))) = players st
           \<and> (\<forall>other. other \<noteq> carId \<longrightarrow>
                 cars (snd (snd (tryEnterCar env c carId st))) other = cars st other)
           \<and> (\<exists>d. cars (snd (snd (tryEnterCar env c carId st))) carId = Some d
                 \<and> d ''driverId'' = Some (FStr (clientId c))
                 \<and> d ''driverName'' = Some (FStr (safeName c))
                 \<and> d ''updatedAt'' = Some (FTime (serverNow env))
                 \<and> (\<forall>k. k \<notin> {''driverId'', ''driverName'', ''updatedAt''} \<longrightarrow>
                        d k = fields_of st carId k)))"
  unfolding tryEnterCar_through [OF assms]
  by (simp add: map_add_def)

lemma ex_alice_through: "goes_through ex_env ex_alice"
  by (simp add: goes_through_def ex_env_def ex_alice_def)

lemma ex_bob_through: "goes_through ex_env ex_bob"
  by (simp add: goes_through_def ex_env_def ex_bob_def)

lemma ex_free_not_occupied: "\<not> fresh_other_driver ex_alice ex_env ex_store_free ''car-1''"
  by (simp add: fresh_other_driver_def ex_store_free_def)

lemma ex_taken_occupied: "fresh_other_driver ex_bob ex_env ex_store_taken ''car-1''"
  by (simp add: fresh_other_driver_def ex_store_taken_def ex_bob_def ex_env_def)

theorem tryEnterCar_decision_witness:
  "goes_through ex_env ex_alice
   \<and> fst (tryEnterCar ex_env ex_alice ''car-1'' ex_store_free) = Resolved True
   \<and> (\<exists>d. cars (snd (snd (tryEnterCar ex_env ex_alice ''car-1'' ex_store_free))) ''car-1'' = Some d
         \<and> d ''driverId'' = Some (FStr ''p-alice'') \<and> d ''driverName'' = Some (FStr ''Alice'')
         \<and> d ''x'' = Some (FNum 6))
   \<and> goes_through ex_env ex_bob
   \<and> fst (tryEnterCar ex_env ex_bob ''car-1'' ex_store_taken) = Resolved False
   \<and> snd (snd (tryEnterCar ex_env ex_bob ''car-1'' ex_store_taken)) = ex_store_taken"
proof -
  from tryEnterCar_decision [OF ex_alice_through, of "''car-1''" ex_store_free] ex_free_not_occupied
  obtain d where d: "fst (tryEnterCar ex_env ex_alice ''car-1'' ex_store_free) = Resolved True"
      "cars (snd (snd (tryEnterCar ex_env ex_alice ''car-1'' ex_store_free))) ''car-1'' = Some d"
      "d ''driverId'' = Some (FStr (clientId ex_alice))"
      "d ''driverName'' = Some (FStr (safeName ex_alice))"
      "\<forall>k. k \<notin> {''driverId'', ''driverName'', ''updatedAt''} \<longrightarrow> d k = fields_of ex_store_free ''car-1'' k"
    by auto
  from d(5) have "d ''x'' = Some (FNum 6)"
    by (simp add: fields_of_def ex_store_free_def)
  with d have a: "\<exists>d. cars (snd (snd (tryEnterCar ex_env ex_alice ''car-1'' ex_store_free))) ''car-1'' = Some d
         \<and> d ''driverId'' = Some (FStr ''p-alice'') \<and> d ''driverName'' = Some (FStr ''Alice'')
         \<and> d ''x'' = Some (FNum 6)"
    by (simp add: ex_alice_def)
  from tryEnterCar_decision [OF ex_bob_through, of "''car-1''" ex_store_taken] ex_taken_occupied
  have b: "fst (tryEnterCar ex_env ex_bob ''car-1'' ex_store_taken) = Resolved False"
    "snd (snd (tryEnterCar ex_env ex_bob ''car-1'' ex_store_taken)) = ex_store_taken"
    by simp_all
  from a b d(1) ex_alice_through ex_bob_through show ?thesis by blast
qed

lemma tryEnterCar_blocked:
  "quotaBlocked c \<Longrightarrow> tryEnterCar env c carId st = (Resolved True, c, st)"
  by (simp add: tryEnterCar_def)

lemma leaveCar_blocked:
  "quotaBlocked c \<Longrightarrow> leaveCar env c carId patch st = (Resolved True, c, st)"
  by (simp add: leaveCar_def)

lemma ex_bob_blocked_flag: "quotaBlocked ex_bob_blocked"
  by (simp add: ex_bob_blocked_def)

lemma ex_bob_blocked_id: "clientId ex_bob_blocked = ''p-bob''"
  by (simp add: ex_bob_blocked_def ex_bob_def)

text \<open>
  Claim C2, as stated, fails: while a client's writes are suspended by the quota backoff,
  \<^verbatim>\<open>tryEnterCar\<close> answers \<^verbatim>\<open>true\<close> before it reads the store. Here the vehicle records Alice
  as its driver, updated one second ago; Bob, suspended, is answered \<^verbatim>\<open>true\<close>, and nothing
  is written.
\<close>

theorem suspended_enter_occupied_counterexample:
  "fresh_other_driver ex_bob_blocked ex_env ex_store_taken ''car-1''
   \<and> tryEnterCar ex_env ex_bob_blocked ''car-1'' ex_store_taken
       = (Resolved True, ex_bob_blocked, ex_store_taken)"
  by (simp add: tryEnterCar_blocked ex_bob_blocked_flag)
     (simp add: fresh_other_driver_def ex_store_taken_def ex_bob_blocked_id ex_env_def)

lemma other_driver_eq:
  "(case driverId_of (cars st carId) of None \<Rightarrow> False | Some v \<Rightarrow> truthy v \<and> v \<noteq> FStr (clientId c))
     = other_driver c st carId"
  by (simp add: other_driver_def driverId_of_def split: option.splits)

lemma leaveCar_through:
  assumes "goes_through env c"
  shows "leaveCar env c carId patch st =
     (Resolved (\<not> other_driver c st carId), c,
      if other_driver c st carId then st
      else st\<lparr>cars := (cars st)(carId \<mapsto> fields_of st carId ++
              ((case patch of None \<Rightarrow> Map.empty | Some p \<Rightarrow> p) ++
               [''driverId'' \<mapsto> FNull, ''driverName'' \<mapsto> FNull,
                ''updatedAt'' \<mapsto> FTime (serverNow env)]))\<rparr>)"
  using assms
  by (simp add: goes_through_def leaveCar_def runTransaction_ok leaveCar_tx_def
      other_driver_eq merge_set_def fields_of_def)

text \<open>
  Claim C4, amended. For a call of \<^verbatim>\<open>leaveCar\<close> that reaches the store (the client's
  writes are not suspended and the transaction commits): when the vehicle's document records
  a driver who is not the caller, the call resolves to \<^verbatim>\<open>false\<close> and the store is unchanged;
  otherwise it resolves to \<^verbatim>\<open>true\<close> and one write sets \<^verbatim>\<open>driverId\<close> and
  \<^verbatim>\<open>driverName\<close> to \<^verbatim>\<open>null\<close>, \<^verbatim>\<open>updatedAt\<close> to the server's time, and every other field
  to its value in the patch when the patch has it, to its old value when not.
\<close>

theorem leaveCar_decision:
  assumes "goes_through env c"
  shows "fst (leaveCar env c carId patch st) = Resolved (\<not> other_driver c st carId)
     \<and> fst (snd (leaveCar env c carId patch st)) = c
     \<and> (if other_driver c st carId
        then snd (snd (leaveCar env c carId patch st)) = st
        else players (snd (snd (leaveCar env c carId patch st))) = players st
           \<and> (\<forall>other. other \<noteq> carId \<longrightarrow>
                 cars (snd (snd (leaveCar env c carId patch st))) other = cars st other)
           \<and> (\<exists>d. cars (snd (snd (leaveCar env c carId patch st))) carId = Some d
                 \<and> d ''driverId'' = Some FNull
                 \<and> d ''driverName'' = Some FNull
                 \<and> d ''updatedAt'' = Some (FTime (serverNow env))
                 \<and> (\<forall>k. k \<notin> {''driverId'', ''driverName'', ''updatedAt''} \<longrightarrow>
                        d k = (case patch_fields patch k of
                                 Some v \<Rightarrow> Some v
                               | None \<Rightarrow> fields_of st carId k))))"
  unfolding leaveCar_through [OF assms]
  by (simp add: map_add_def patch_fields_def split: option.splits)

lemma ex_alice_drives: "\<not> other_driver ex_alice ex_store_taken ''car-1''"
  by (simp add: other_driver_def ex_store_taken_def ex_alice_def)

lemma ex_bob_not_driver: "other_driver ex_bob ex_store_taken ''car-1''"
  by (simp add: other_driver_def ex_store_taken_def ex_bob_def)

theorem leaveCar_decision_witness:
  "goes_through ex_env ex_bob
   \<and> fst (leaveCar ex_env ex_bob ''car-1'' (Some ex_patch) ex_store_taken) = Resolved False
   \<and> snd (snd (leaveCar ex_env ex_bob ''car-1'' (Some ex_patch) ex_store_taken)) = ex_store_taken
   \<and> goes_through ex_env ex_alice
   \<and> fst (leaveCar ex_env ex_alice ''car-1'' (Some ex_patch) ex_store_taken) = Resolved True
   \<and> (\<exists>d. cars (snd (snd (leaveCar ex_env ex_alice ''car-1'' (Some ex_patch) ex_store_taken))) ''car-1''
            = Some d
         \<and> d ''driverId'' = Some FNull \<and> d ''driverName'' = Some FNull
         \<and> d ''x'' = Some (FNum 12) \<and> d ''z'' = Some (FNum 3))"
proof -
  from leaveCar_decision [OF ex_bob_through, of "''car-1''" "Some ex_patch" ex_store_taken]
    ex_bob_not_driver
  have b: "fst (leaveCar ex_env ex_bob ''car-1'' (Some ex_patch) ex_store_taken) = Resolved False"
    "snd (snd (leaveCar ex_env ex_bob ''car-1'' (Some ex_patch) ex_store_taken)) = ex_store_taken"
    by simp_all
  from leaveCar_decision [OF ex_alice_through, of "''car-1''" "Some ex_patch" ex_store_taken]
    ex_alice_drives
  obtain d where d: "fst (leaveCar ex_env ex_alice ''car-1'' (Some ex_patch) ex_store_taken) = Resolved True"
      "cars (snd (snd (leaveCar ex_env ex_alice ''car-1'' (Some ex_patch) ex_store_taken))) ''car-1'' = Some d"
      "d ''driverId'' = Some FNull" "d ''driverName'' = Some FNull"
      "\<forall>k. k \<notin> {''driverId'', ''driverName'', ''updatedAt''} \<longrightarrow>
          d k = (case patch_fields (Some ex_patch) k of Some v \<Rightarrow> Some v
                 | None \<Rightarrow> fields_of ex_store_taken ''car-1'' k)"
    by auto
  from d(5) have "d ''x'' = Some (FNum 12)" "d ''z'' = Some (FNum 3)"
    by (simp_all add: patch_fields_def ex_patch_def)
  with d have a: "\<exists>d. cars (snd (snd (leaveCar ex_env ex_alice ''car-1'' (Some ex_patch) ex_store_taken))) ''car-1''
            = Some d
         \<and> d ''driverId'' = Some FNull \<and> d ''driverName'' = Some FNull
         \<and> d ''x'' = Some (FNum 12) \<and> d ''z'' = Some (FNum 3)"
    by simp
  from a b d(1) ex_alice_through ex_bob_through show ?thesis by blast
qed

text \<open>
  Claim C4, as stated, fails: while a client's writes are suspended by the quota backoff,
  \<^verbatim>\<open>leaveCar\<close> answers \<^verbatim>\<open>true\<close> before it reads the store. Here Alice drives the vehicle
  and Bob, suspended, releases it: he is answered \<^verbatim>\<open>true\<close>, and nothing is written.
\<close>

theorem suspended_leave_by_non_driver_counterexample:
  "other_driver ex_bob_blocked ex_store_taken ''car-1''
   \<and> leaveCar ex_env ex_bob_blocked ''car-1'' (Some ex_patch) ex_store_taken
       = (Resolved True, ex_bob_blocked, ex_store_taken)"
  by (simp add: leaveCar_blocked ex_bob_blocked_flag)
     (simp add: other_driver_def ex_store_taken_def ex_bob_blocked_id)

text \<open>
  The unreachable store. When the transaction fails, the promise \<^verbatim>\<open>runTransaction\<close>
  returned is rejected; \<^verbatim>\<open>tryEnterCar\<close> and \<^verbatim>\<open>leaveCar\<close> return that promise from inside
  the \<^verbatim>\<open>try\<close> block without awaiting it, so the rejection reaches the caller and the
  \<^verbatim>\<open>catch\<close> block does not run.
\<close>

lemma unreachable_store_rejects:
  assumes "\<not> quotaBlocked c" "sync_throw env = None" "tx_failure env = Some e"
  shows "tryEnterCar env c carId st = (Rejected e, c, st)"
    and "leaveCar env c carId patch st = (Rejected e, c, st)"
  using assms by (simp_all add: tryEnterCar_def leaveCar_def runTransaction_def)




lemma tryEnterCar_all_refused:
  assumes "cars st carId = Some d" "d ''driverId'' = Some (FStr w)" "w \<noteq> []"
    "d ''updatedAt'' = Some (FTime t)"
    "list_all (\<lambda>call. goes_through (fst call) (snd call)) calls"
    "list_all (\<lambda>call. clientId (snd call) \<noteq> w) calls"
    "list_all (\<lambda>call. now (fst call) - t < STALE_MS) calls"
  shows "tryEnterCar_all calls carId st = (replicate (length calls) (Resolved False), st)"
  using assms(5-7)
proof (induction calls)
  case Nil
  then show ?case by simp
next
  case (Cons call calls)
  have occ: "fresh_other_driver (snd call) (fst call) st carId"
    using assms(1-4) Cons.prems by (auto simp: fresh_other_driver_def STALE_MS_def)
  from Cons.prems have "goes_through (fst call) (snd call)" by simp
  from tryEnterCar_through [OF this, of carId st] occ
  have "tryEnterCar (fst call) (snd call) carId st = (Resolved False, snd call, st)" by simp
  moreover from Cons have "tryEnterCar_all calls carId st = (replicate (length calls) (Resolved False), st)"
    by simp
  ultimately show ?case by simp
qed

text \<open>
  Claim C1, amended. The store commits the transactions of concurrent calls one at a time,
  in some order; take the calls in that order. When the vehicle has no driver, every call
  reaches the store (no client's writes are suspended, every transaction commits), the
  clients' ids are distinct, the first one's is not empty, and every later call runs less
  than 15000 ms (on its own clock) after the server's time of the first commit, then the
  first call resolves to \<^verbatim>\<open>true\<close>, every other call to \<^verbatim>\<open>false\<close>, and the vehicle records
  the first caller as its driver.
\<close>

theorem exactly_one_acquires:
  assumes "no_driver st carId"
    and "list_all (\<lambda>call. goes_through (fst call) (snd call)) (first # rest)"
    and "distinct (map (\<lambda>call. clientId (snd call)) (first # rest))"
    and "clientId (snd first) \<noteq> []"
    and "list_all (\<lambda>call. now (fst call) - serverNow (fst first) < STALE_MS) rest"
  shows "fst (tryEnterCar_all (first # rest) carId st)
           = Resolved True # replicate (length rest) (Resolved False)
       \<and> driverId_of (cars (snd (tryEnterCar_all (first # rest) carId st)) carId)
           = Some (FStr (clientId (snd first)))"
proof -
  define st1 where "st1 = st\<lparr>cars := (cars st)(carId \<mapsto> fields_of st carId ++
              [''driverId'' \<mapsto> FStr (clientId (snd first)), ''driverName'' \<mapsto> FStr (safeName (snd first)),
               ''updatedAt'' \<mapsto> FTime (serverNow (fst first))])\<rparr>"
  have free: "\<not> fresh_other_driver (snd first) (fst first) st carId"
    using assms(1) by (auto simp: no_driver_def fresh_other_driver_def driverId_of_def split: option.splits)
  from assms(2) have "goes_through (fst first) (snd first)" by simp
  from tryEnterCar_through [OF this, of carId st] free
  have first: "tryEnterCar (fst first) (snd first) carId st = (Resolved True, snd first, st1)"
    by (simp add: st1_def)
  obtain d where d: "cars st1 carId = Some d" "d ''driverId'' = Some (FStr (clientId (snd first)))"
    "d ''updatedAt'' = Some (FTime (serverNow (fst first)))"
    by (simp add: st1_def)
  have others: "list_all (\<lambda>call. clientId (snd call) \<noteq> clientId (snd first)) rest"
    using assms(3) by (force simp: list_all_iff image_iff)
  from assms(2) have through: "list_all (\<lambda>call. goes_through (fst call) (snd call)) rest" by simp
  from tryEnterCar_all_refused [OF d(1,2) assms(4) d(3) through others assms(5)]
  have "tryEnterCar_all rest carId st1 = (replicate (length rest) (Resolved False), st1)" .
  with first d show ?thesis by (simp add: driverId_of_def)
qed

theorem exactly_one_acquires_witness:
  "no_driver ex_store_free ''car-1''
   \<and> list_all (\<lambda>call. goes_through (fst call) (snd call))
        ((ex_env, ex_alice) # [(ex_env_later, ex_bob), (ex_env_later, ex_carol)])
   \<and> distinct (map (\<lambda>call. clientId (snd call))
        ((ex_env, ex_alice) # [(ex_env_later, ex_bob), (ex_env_later, ex_carol)]))
   \<and> fst (tryEnterCar_all ((ex_env, ex_alice) # [(ex_env_later, ex_bob), (ex_env_later, ex_carol)])
            ''car-1'' ex_store_free)
       = [Resolved True, Resolved False, Resolved False]
   \<and> driverId_of (cars (snd (tryEnterCar_all
            ((ex_env, ex_alice) # [(ex_env_later, ex_bob), (ex_env_later, ex_carol)])
            ''car-1'' ex_store_free)) ''car-1'')
       = Some (FStr ''p-alice'')"
proof -
  have h1: "no_driver ex_store_free ''car-1''"
    by (simp add: no_driver_def driverId_of_def ex_store_free_def)
  have h2: "list_all (\<lambda>call. goes_through (fst call) (snd call))
        ((ex_env, ex_alice) # [(ex_env_later, ex_bob), (ex_env_later, ex_carol)])"
    by (simp add: goes_through_def ex_env_def ex_env_later_def ex_alice_def ex_bob_def ex_carol_def)
  have h3: "distinct (map (\<lambda>call. clientId (snd call))
        ((ex_env, ex_alice) # [(ex_env_later, ex_bob), (ex_env_later, ex_carol)]))"
    by (simp add: ex_alice_def ex_bob_def ex_carol_def)
  have h4: "clientId (snd (ex_env, ex_alice)) \<noteq> []"
    by (simp add: ex_alice_def)
  have h5: "list_all (\<lambda>call. now (fst call) - serverNow (fst (ex_env, ex_alice)) < STALE_MS)
        [(ex_env_later, ex_bob), (ex_env_later, ex_carol)]"
    by (simp add: ex_env_def ex_env_later_def STALE_MS_def)
  from exactly_one_acquires [OF h1 h2 h3 h4 h5] h1 h2 h3
  show ?thesis by (simp add: ex_alice_def)
qed

text \<open>
  Claim C1, as stated, fails: two clients whose writes are suspended by the quota backoff
  call \<^verbatim>\<open>tryEnterCar\<close> on the same free vehicle, and both are answered \<^verbatim>\<open>true\<close>.
\<close>

theorem suspended_clients_all_acquire_counterexample:
  "no_driver ex_store_free ''car-1''
   \<and> clientId ex_bob_blocked \<noteq> clientId ex_carol_blocked
   \<and> tryEnterCar_all [(ex_env, ex_bob_blocked), (ex_env, ex_carol_blocked)] ''car-1'' ex_store_free
       = ([Resolved True, Resolved True], ex_store_free)"
proof -
  have "quotaBlocked ex_carol_blocked" by (simp add: ex_carol_blocked_def)
  then show ?thesis
    by (simp add: tryEnterCar_blocked ex_bob_blocked_flag)
       (simp add: no_driver_def driverId_of_def ex_store_free_def ex_bob_blocked_def
          ex_carol_blocked_def ex_bob_def ex_carol_def)
qed

section \<open>Properties of the chat log\<close>
















section \<open>Properties of the publishing\<close>

lemma player_gap_first: "player_gap p sname None = PLAYER_SYNC_FAST_MS"
  by (simp add: player_gap_def)

lemma yaw_distance_same: "yaw_distance a a = 0"
  by (simp add: yaw_distance_def js_rem_def)

lemma player_gap_unchanged:
  "p_name p = sname \<Longrightarrow> player_gap p sname (Some p) = PLAYER_HEARTBEAT_MS"
  by (simp add: player_gap_def hypot_def yaw_distance_same)

lemma player_gap_lower: "PLAYER_SYNC_FAST_MS \<le> player_gap p sname prev"
  by (simp add: player_gap_def Let_def PLAYER_SYNC_FAST_MS_def PLAYER_SYNC_NORMAL_MS_def PLAYER_HEARTBEAT_MS_def)

lemma attempts_in_flight:
  assumes "\<not> quotaBlocked (pp_client s)" "pp_sync s = \<lparr>lastSent = 0, lastPlayerPayload = None\<rparr>"
    "list_all (\<lambda>t. PLAYER_SYNC_FAST_MS \<le> t) ts"
  shows "pub_run s (map (\<lambda>t. Attempt t p) ts) =
           s\<lparr>pp_issued := pp_issued s @ map (\<lambda>t. (t, p\<lparr>p_name := safeName (pp_client s)\<rparr>)) ts\<rparr>"
  using assms
proof (induction ts arbitrary: s)
  case Nil
  then show ?case by (simp add: pub_run_def)
next
  case (Cons t ts)
  let ?s1 = "s\<lparr>pp_issued := pp_issued s @ [(t, p\<lparr>p_name := safeName (pp_client s)\<rparr>)]\<rparr>"
  have step: "pub_step s (Attempt t p) = ?s1"
    using Cons.prems by (simp add: player_publish_def player_gap_first)
  have "pub_run ?s1 (map (\<lambda>t. Attempt t p) ts) =
      ?s1\<lparr>pp_issued := pp_issued ?s1 @ map (\<lambda>t. (t, p\<lparr>p_name := safeName (pp_client ?s1)\<rparr>)) ts\<rparr>"
    by (rule Cons.IH) (use Cons.prems in simp_all)
  with step show ?case by (simp add: pub_run_def)
qed

text \<open>
  Claim C9 on the code, at a failing input. After the room is entered, the publish effect
  runs 45 times, 16 ms apart, with the same local state, before the first write has
  resolved. Every run issues a write: 45 writes, the first two at 100000 and 100016, while
  the shortest gap the effect can select is 140 ms (the one it selects here, by
  \<open>player_gap_first\<close>) and the heartbeat window is 2500 ms. The effect records the time of
  a write only when the write has succeeded.
\<close>

theorem unacknowledged_publishes_ignore_gap:
  "length (pp_issued (pub_run (pub_init ex_alice) ex_attempts)) = 45
   \<and> map fst (take 2 (pp_issued (pub_run (pub_init ex_alice) ex_attempts))) = [100000, 100016]
   \<and> PLAYER_SYNC_FAST_MS = 140 \<and> PLAYER_SYNC_NORMAL_MS = 260 \<and> PLAYER_HEARTBEAT_MS = 2500"
proof -
  have ts: "list_all (\<lambda>t. PLAYER_SYNC_FAST_MS \<le> t) (map (\<lambda>i. 100000 + 16 * int i) [0..<45])"
    by (simp add: list_all_iff PLAYER_SYNC_FAST_MS_def)
  have "pub_run (pub_init ex_alice) (map (\<lambda>t. Attempt t ex_player) (map (\<lambda>i. 100000 + 16 * int i) [0..<45]))
     = (pub_init ex_alice)\<lparr>pp_issued := pp_issued (pub_init ex_alice) @
          map (\<lambda>t. (t, ex_player\<lparr>p_name := safeName (pp_client (pub_init ex_alice))\<rparr>))
            (map (\<lambda>i. 100000 + 16 * int i) [0..<45])\<rparr>"
    by (rule attempts_in_flight [OF _ _ ts]) (simp_all add: pub_init_def)
  then have run: "pp_issued (pub_run (pub_init ex_alice) ex_attempts) =
      map (\<lambda>t. (t, ex_player\<lparr>p_name := safeName ex_alice\<rparr>)) (map (\<lambda>i. 100000 + 16 * int i) [0..<45])"
    by (simp add: ex_attempts_def pub_init_def comp_def)
  have "[0..<45] = 0 # 1 # [2..<45]" by (simp add: upt_conv_Cons)
  then have two: "take 2 (map (\<lambda>i. 100000 + 16 * int i) [0..<45]) = [100000, 100016]"
    by simp
  show ?thesis
    unfolding run
    by (simp add: take_map two PLAYER_SYNC_FAST_MS_def PLAYER_SYNC_NORMAL_MS_def
        PLAYER_HEARTBEAT_MS_def)
qed

text \<open>
  What the code does keep. Once a write has been acknowledged, a run of the effect with the
  same state within the heartbeat window issues nothing. \<^verbatim>\<open>pushCarState\<close> records the time
  before it issues the write, so a write it issues is at least the selected gap after the
  last one issued for that vehicle.
\<close>

lemma acknowledged_heartbeat_holds:
  assumes "pp_sync s = \<lparr>lastSent = t0, lastPlayerPayload = Some p\<rparr>" "p_name p = safeName (pp_client s)"
    "t - t0 < PLAYER_HEARTBEAT_MS"
  shows "pub_step s (Attempt t p) = s"
  using assms by (simp add: player_publish_def player_gap_unchanged)

lemma pushCarState_gap:
  assumes "pushCarState t c carId patch cs = (cs', Some w)"
  shows "car_gap patch (lastCarPayload cs carId)
           \<le> t - (case lastCarSent cs carId of None \<Rightarrow> 0 | Some t0 \<Rightarrow> t0)
       \<and> lastCarSent cs' carId = Some t \<and> lastCarPayload cs' carId = Some patch"
  using assms by (auto simp: pushCarState_def Let_def split: if_splits)

lemma pushCarState_skip:
  assumes "pushCarState t c carId patch cs = (cs', None)"
  shows "cs' = cs"
  using assms by (auto simp: pushCarState_def Let_def split: if_splits)

end
